theory Spec2Isabelle
  imports Complex_Main
begin

section \<open>ECMAScript values and coercions used by the server\<close>

text \<open>
  The server (\<^verbatim>\<open>src/unnamed/part_000\<close>) is an Express application whose handlers
  work on JSON request bodies. A field of a body may hold any JSON value, and the handlers
  rely on JavaScript's coercions (\<^verbatim>\<open>!x\<close>, \<^verbatim>\<open>isNaN\<close>, \<^verbatim>\<open><=\<close>,
  \<^verbatim>\<open>parseFloat\<close>, \<^verbatim>\<open>parseInt\<close>, \<^verbatim>\<open>===\<close>), so these are modelled first.

  Numbers are IEEE-754 doubles: \<open>Fin r\<close> is the finite double whose exact value is the
  rational \<open>r\<close>. The sign of zero is not represented: no operation of the server
  observes it (truthiness, comparison, \<^verbatim>\<open>===\<close> and \<^verbatim>\<open>JSON.stringify\<close> treat
  \<^verbatim>\<open>-0\<close> as \<^verbatim>\<open>0\<close>).
  Field values are the JSON primitives and \<open>Undefined\<close> for an absent key; arrays and
  objects as field values are outside the model. A string is the list of the bytes of its
  UTF-8 encoding, so that an ASCII character is one \<open>char\<close>.
\<close>

datatype jsnum = NaN | PosInf | NegInf | Fin rat

datatype jsval = Undefined | Null | Bool bool | Num jsnum | Str string

subsection \<open>Rounding a rational to the nearest double\<close>

definition pow_int :: "int \<Rightarrow> int \<Rightarrow> rat" where
  "pow_int b e = (if 0 \<le> e then of_int (b ^ nat e) else 1 / of_int (b ^ nat (- e)))"

text \<open>\<open>ndigits b a\<close> is the number of base-\<open>b\<close> digits of a positive integer \<open>a\<close>.\<close>

function ndigits :: "int \<Rightarrow> int \<Rightarrow> int" where
  "ndigits b a = (if 0 < a \<and> 1 < b then ndigits b (a div b) + 1 else 0)"
  by pat_completeness auto
termination
  by (relation "measure (\<lambda>(b, a). nat a)") (auto simp: int_div_less_self)

text \<open>\<open>ilog b x\<close> is \<open>\<lfloor>log\<^sub>b x\<rfloor>\<close> for a positive rational \<open>x\<close>.\<close>

definition ilog :: "int \<Rightarrow> rat \<Rightarrow> int" where
  "ilog b x =
     (if 1 \<le> x then ndigits b \<lfloor>x\<rfloor> - 1
      else - ndigits b (\<lceil>1 / x\<rceil> - 1))"

definition round_half_even :: "rat \<Rightarrow> int" where
  "round_half_even q =
     (let f = \<lfloor>q\<rfloor>; d = q - of_int f
      in if d < 1 / 2 then f else if 1 / 2 < d then f + 1 else if even f then f else f + 1)"

text \<open>
  Round to nearest, ties to even, with a 53-bit significand, gradual underflow below
  \<open>2\<^sup>-\<^sup>1\<^sup>0\<^sup>2\<^sup>2\<close> and overflow to infinity from \<open>2\<^sup>1\<^sup>0\<^sup>2\<^sup>4\<close>.
\<close>

definition rne :: "rat \<Rightarrow> jsnum" where
  "rne x =
     (if x = 0 then Fin 0
      else
        let e = max (ilog 2 \<bar>x\<bar>) (- 1022);
            u = pow_int 2 (e - 52);
            y = of_int (round_half_even (x / u)) * u
        in if pow_int 2 1024 \<le> \<bar>y\<bar> then (if 0 < x then PosInf else NegInf) else Fin y)"

definition js_neg :: "jsnum \<Rightarrow> jsnum" where
  "js_neg n = (case n of NaN \<Rightarrow> NaN | PosInf \<Rightarrow> NegInf | NegInf \<Rightarrow> PosInf | Fin r \<Rightarrow> Fin (- r))"

text \<open>The binary \<^verbatim>\<open>-\<close> on two numbers.\<close>

definition js_sub :: "jsnum \<Rightarrow> jsnum \<Rightarrow> jsnum" where
  "js_sub a b =
     (case (a, b) of
        (NaN, _) \<Rightarrow> NaN
      | (_, NaN) \<Rightarrow> NaN
      | (PosInf, PosInf) \<Rightarrow> NaN
      | (NegInf, NegInf) \<Rightarrow> NaN
      | (PosInf, _) \<Rightarrow> PosInf
      | (NegInf, _) \<Rightarrow> NegInf
      | (Fin _, PosInf) \<Rightarrow> NegInf
      | (Fin _, NegInf) \<Rightarrow> PosInf
      | (Fin x, Fin y) \<Rightarrow> rne (x - y))"

text \<open>
  The postfix \<^verbatim>\<open>++\<close> on a property holding the integer \<open>n\<close>: the property becomes the
  double nearest to \<open>n + 1\<close>, again an integer.
\<close>

definition js_inc :: "int \<Rightarrow> int" where
  "js_inc n = (case rne (of_int n + 1) of Fin r \<Rightarrow> \<lfloor>r\<rfloor> | _ \<Rightarrow> n)"

subsection \<open>Strings to numbers\<close>

text \<open>
  The characters that \<^verbatim>\<open>parseInt\<close>, \<^verbatim>\<open>parseFloat\<close> and \<open>StringToNumber\<close> strip
  (\<open>WhiteSpace\<close> and \<open>LineTerminator\<close>), each as its UTF-8 bytes: TAB, LF, VT, FF, CR,
  SP, U+00A0, U+1680, U+2000 to U+200A, U+2028, U+2029, U+202F, U+205F, U+3000 and U+FEFF.
\<close>

definition white_space :: "string list" where
  "white_space =
     [[CHR 0x09], [CHR 0x0A], [CHR 0x0B], [CHR 0x0C], [CHR 0x0D], [CHR 0x20],
      [CHR 0xC2, CHR 0xA0],
      [CHR 0xE1, CHR 0x9A, CHR 0x80],
      [CHR 0xE2, CHR 0x80, CHR 0x80], [CHR 0xE2, CHR 0x80, CHR 0x81],
      [CHR 0xE2, CHR 0x80, CHR 0x82], [CHR 0xE2, CHR 0x80, CHR 0x83],
      [CHR 0xE2, CHR 0x80, CHR 0x84], [CHR 0xE2, CHR 0x80, CHR 0x85],
      [CHR 0xE2, CHR 0x80, CHR 0x86], [CHR 0xE2, CHR 0x80, CHR 0x87],
      [CHR 0xE2, CHR 0x80, CHR 0x88], [CHR 0xE2, CHR 0x80, CHR 0x89],
      [CHR 0xE2, CHR 0x80, CHR 0x8A],
      [CHR 0xE2, CHR 0x80, CHR 0xA8], [CHR 0xE2, CHR 0x80, CHR 0xA9],
      [CHR 0xE2, CHR 0x80, CHR 0xAF],
      [CHR 0xE2, CHR 0x81, CHR 0x9F],
      [CHR 0xE3, CHR 0x80, CHR 0x80],
      [CHR 0xEF, CHR 0xBB, CHR 0xBF]]"

definition starts_with :: "string \<Rightarrow> string \<Rightarrow> bool" where
  "starts_with p s \<longleftrightarrow> take (length p) s = p"

text \<open>\<open>strip ws s\<close> takes the strings of \<open>ws\<close> off the head of \<open>s\<close> as long as one is there.\<close>

function strip :: "string list \<Rightarrow> string \<Rightarrow> string" where
  "strip ws s =
     (case find (\<lambda>w. w \<noteq> [] \<and> starts_with w s) ws of
        None \<Rightarrow> s
      | Some w \<Rightarrow> strip ws (drop (length w) s))"
  by pat_completeness auto
termination
proof (relation "measure (\<lambda>(ws, s). length s)")
  show "wf (measure (\<lambda>(ws, s). length s))" by simp
next
  fix ws :: "string list" and s w :: string
  assume "find (\<lambda>w. w \<noteq> [] \<and> starts_with w s) ws = Some w"
  then have "w \<noteq> []" "take (length w) s = w"
    by (auto simp: find_Some_iff starts_with_def)
  then have "length w \<le> length s"
    by (auto dest: arg_cong [where f = length])
  with \<open>w \<noteq> []\<close> show "((ws, drop (length w) s), (ws, s)) \<in> measure (\<lambda>(ws, s). length s)"
    by (cases w) auto
qed

declare strip.simps [simp del]

definition trim_start :: "string \<Rightarrow> string" where
  "trim_start s = strip white_space s"

definition trim :: "string \<Rightarrow> string" where
  "trim s = rev (strip (map rev white_space) (rev (strip white_space s)))"

definition digit_table :: "(char \<times> int) list" where
  "digit_table =
     zip ''0123456789abcdefABCDEF''
       [0, 1, 2, 3, 4, 5, 6, 7, 8, 9, 10, 11, 12, 13, 14, 15, 10, 11, 12, 13, 14, 15]"

definition digit_of :: "int \<Rightarrow> char \<Rightarrow> int option" where
  "digit_of radix c =
     (case map_of digit_table c of
        None \<Rightarrow> None
      | Some d \<Rightarrow> if d < radix then Some d else None)"

definition is_digit :: "int \<Rightarrow> char \<Rightarrow> bool" where
  "is_digit radix c \<longleftrightarrow> digit_of radix c \<noteq> None"

definition digits_val :: "int \<Rightarrow> string \<Rightarrow> int" where
  "digits_val radix cs =
     foldl (\<lambda>a c. a * radix + (case digit_of radix c of None \<Rightarrow> 0 | Some d \<Rightarrow> d)) 0 cs"

text \<open>Splits an optional sign off: \<open>True\<close> for a leading minus.\<close>

definition split_sign :: "string \<Rightarrow> bool \<times> string" where
  "split_sign s =
     (case s of
        c # t \<Rightarrow> if c = CHR ''-'' then (True, t) else if c = CHR ''+'' then (False, t) else (False, s)
      | [] \<Rightarrow> (False, s))"

text \<open>
  The optional \<open>ExponentPart\<close> at the head of a string: its value and what follows it.
  An \<^verbatim>\<open>e\<close> with no digits after it is not an exponent and stays in the rest.
\<close>

definition scan_exponent :: "string \<Rightarrow> int \<times> string" where
  "scan_exponent s =
     (case s of
        [] \<Rightarrow> (0, s)
      | c # r \<Rightarrow>
          if c = CHR ''e'' \<or> c = CHR ''E'' then
            (let (neg, r') = split_sign r; ed = takeWhile (is_digit 10) r'
             in if ed = [] then (0, s)
                else ((if neg then - digits_val 10 ed else digits_val 10 ed),
                      dropWhile (is_digit 10) r'))
          else (0, s))"

definition scan_finish :: "string \<Rightarrow> string \<Rightarrow> string \<Rightarrow> jsnum \<times> string" where
  "scan_finish ip fp rest =
     (let (ex, rest') = scan_exponent rest
      in (rne (of_int (digits_val 10 (ip @ fp)) * pow_int 10 (ex - int (length fp))), rest'))"

text \<open>
  The longest prefix that is a \<open>StrUnsignedDecimalLiteral\<close> (\<^verbatim>\<open>Infinity\<close>,
  \<^verbatim>\<open>12\<close>, \<^verbatim>\<open>12.\<close>, \<^verbatim>\<open>12.5\<close>, \<^verbatim>\<open>.5\<close>, each but the first with an optional
  exponent): its Number value and the rest of the string, or \<open>None\<close> when no prefix is one.
\<close>

definition scan_unsigned :: "string \<Rightarrow> (jsnum \<times> string) option" where
  "scan_unsigned s =
     (if starts_with ''Infinity'' s then Some (PosInf, drop 8 s)
      else
        let ip = takeWhile (is_digit 10) s; r1 = dropWhile (is_digit 10) s
        in case r1 of
             [] \<Rightarrow> if ip = [] then None else Some (scan_finish ip [] r1)
           | c # r1' \<Rightarrow>
               if c = CHR ''.'' then
                 (let fp = takeWhile (is_digit 10) r1'; r2 = dropWhile (is_digit 10) r1'
                  in if ip = [] \<and> fp = [] then None else Some (scan_finish ip fp r2))
               else if ip = [] then None
               else Some (scan_finish ip [] r1))"

text \<open>The global function \<^verbatim>\<open>parseFloat\<close> on a string.\<close>

definition parseFloat_str :: "string \<Rightarrow> jsnum" where
  "parseFloat_str s =
     (let (neg, u) = split_sign (trim_start s)
      in case scan_unsigned u of
           None \<Rightarrow> NaN
         | Some (v, rest) \<Rightarrow> if neg then js_neg v else v)"

text \<open>The global function \<^verbatim>\<open>parseInt\<close> on a string, called without a radix.\<close>

definition parseInt_str :: "string \<Rightarrow> jsnum" where
  "parseInt_str s =
     (let (neg, u) = split_sign (trim_start s);
          hex = (starts_with ''0x'' u \<or> starts_with ''0X'' u);
          radix = (if hex then 16 else 10);
          z = takeWhile (is_digit radix) (if hex then drop 2 u else u)
      in if z = [] then NaN
         else (let v = rne (of_int (digits_val radix z)) in if neg then js_neg v else v))"

text \<open>\<open>StringToNumber\<close>: the abstract operation behind \<^verbatim>\<open>Number(s)\<close> for a string.\<close>

definition non_decimal_radix :: "string \<Rightarrow> int option" where
  "non_decimal_radix t =
     (if starts_with ''0x'' t \<or> starts_with ''0X'' t then Some 16
      else if starts_with ''0o'' t \<or> starts_with ''0O'' t then Some 8
      else if starts_with ''0b'' t \<or> starts_with ''0B'' t then Some 2
      else None)"

definition StringToNumber :: "string \<Rightarrow> jsnum" where
  "StringToNumber s =
     (let t = trim s
      in if t = [] then Fin 0
         else case non_decimal_radix t of
           Some radix \<Rightarrow>
             (let ds = drop 2 t
              in if ds \<noteq> [] \<and> list_all (is_digit radix) ds
                 then rne (of_int (digits_val radix ds)) else NaN)
         | None \<Rightarrow>
             (let (neg, u) = split_sign t
              in case scan_unsigned u of
                   None \<Rightarrow> NaN
                 | Some (v, rest) \<Rightarrow> if rest = [] then (if neg then js_neg v else v) else NaN))"

subsection \<open>Numbers to strings\<close>

function dec_str :: "int \<Rightarrow> string" where
  "dec_str n =
     (if n < 10 then [''0123456789'' ! nat n] else dec_str (n div 10) @ [''0123456789'' ! nat (n mod 10)])"
  by pat_completeness auto
termination
  by (relation "measure nat") (auto simp: int_div_less_self)

declare ndigits.simps [simp del] dec_str.simps [simp del]

text \<open>
  \<open>shortest x n k fuel\<close> looks for the shortest decimal \<open>s \<times> 10\<^sup>n\<^sup>-\<^sup>k\<close> with \<open>k\<close>
  digits that rounds to the double \<open>x\<close>, from \<open>k\<close> digits upwards, where
  \<open>10\<^sup>n\<^sup>-\<^sup>1 \<le> x < 10\<^sup>n\<close>; of two \<open>k\<close>-digit decimals that round to \<open>x\<close> it takes
  the closer one. It returns \<open>(s, k, n)\<close> as in \<open>Number::toString\<close>. Seventeen digits
  always suffice for a double.
\<close>

fun shortest :: "rat \<Rightarrow> int \<Rightarrow> int \<Rightarrow> nat \<Rightarrow> int \<times> int \<times> int" where
  "shortest x n k 0 = (\<lfloor>x / pow_int 10 (n - k)\<rfloor>, k, n)"
| "shortest x n k (Suc fuel) =
     (let g = pow_int 10 (n - k);
          lo = \<lfloor>x / g\<rfloor>;
          hi = lo + 1;
          oklo = (rne (of_int lo * g) = Fin x);
          okhi = (rne (of_int hi * g) = Fin x);
          dlo = x - of_int lo * g;
          dhi = of_int hi * g - x;
          s = (if oklo \<and> okhi then (if dlo < dhi \<or> (dlo = dhi \<and> even lo) then lo else hi)
               else if oklo then lo else hi)
      in if oklo \<or> okhi then (if s = 10 ^ nat k then (1, 1, n + 1) else (s, k, n))
         else shortest x n (k + 1) fuel)"

definition exp_str :: "int \<Rightarrow> string" where
  "exp_str e = (if 0 \<le> e then ''e+'' @ dec_str e else ''e-'' @ dec_str (- e))"

text \<open>\<open>Number::toString\<close> for a positive finite double.\<close>

definition pos_to_string :: "rat \<Rightarrow> string" where
  "pos_to_string x =
     (let (s, k, n) = shortest x (ilog 10 x + 1) 1 17;
          ds = dec_str s
      in if k \<le> n \<and> n \<le> 21 then ds @ replicate (nat (n - k)) CHR ''0''
         else if 0 < n \<and> n \<le> 21 then take (nat n) ds @ ''.'' @ drop (nat n) ds
         else if - 6 < n \<and> n \<le> 0 then ''0.'' @ replicate (nat (- n)) CHR ''0'' @ ds
         else if k = 1 then ds @ exp_str (n - 1)
         else take 1 ds @ ''.'' @ drop 1 ds @ exp_str (n - 1))"

definition num_to_string :: "jsnum \<Rightarrow> string" where
  "num_to_string n =
     (case n of
        NaN \<Rightarrow> ''NaN''
      | PosInf \<Rightarrow> ''Infinity''
      | NegInf \<Rightarrow> ''-Infinity''
      | Fin r \<Rightarrow>
          if r = 0 then ''0''
          else if r < 0 then ''-'' @ pos_to_string (- r)
          else pos_to_string r)"

subsection \<open>Coercions of values\<close>

definition ToString :: "jsval \<Rightarrow> string" where
  "ToString v =
     (case v of
        Undefined \<Rightarrow> ''undefined''
      | Null \<Rightarrow> ''null''
      | Bool b \<Rightarrow> (if b then ''true'' else ''false'')
      | Num n \<Rightarrow> num_to_string n
      | Str s \<Rightarrow> s)"

definition ToNumber :: "jsval \<Rightarrow> jsnum" where
  "ToNumber v =
     (case v of
        Undefined \<Rightarrow> NaN
      | Null \<Rightarrow> Fin 0
      | Bool b \<Rightarrow> (if b then Fin 1 else Fin 0)
      | Num n \<Rightarrow> n
      | Str s \<Rightarrow> StringToNumber s)"

text \<open>\<open>ToBoolean\<close>: what \<^verbatim>\<open>!x\<close> and \<^verbatim>\<open>if (x)\<close> test.\<close>

definition truthy :: "jsval \<Rightarrow> bool" where
  "truthy v =
     (case v of
        Undefined \<Rightarrow> False
      | Null \<Rightarrow> False
      | Bool b \<Rightarrow> b
      | Num n \<Rightarrow> n \<noteq> NaN \<and> n \<noteq> Fin 0
      | Str s \<Rightarrow> s \<noteq> [])"

definition isNaN :: "jsval \<Rightarrow> bool" where
  "isNaN v \<longleftrightarrow> ToNumber v = NaN"

text \<open>
  \<^verbatim>\<open>v <= 0\<close> and \<^verbatim>\<open>v < 0\<close>: the other operand is a number, so \<open>v\<close> is converted
  with \<open>ToNumber\<close>, and a comparison with \<^verbatim>\<open>NaN\<close> is false.
\<close>

definition le_zero :: "jsval \<Rightarrow> bool" where
  "le_zero v =
     (case ToNumber v of NaN \<Rightarrow> False | PosInf \<Rightarrow> False | NegInf \<Rightarrow> True | Fin r \<Rightarrow> r \<le> 0)"

definition lt_zero :: "jsval \<Rightarrow> bool" where
  "lt_zero v =
     (case ToNumber v of NaN \<Rightarrow> False | PosInf \<Rightarrow> False | NegInf \<Rightarrow> True | Fin r \<Rightarrow> r < 0)"

definition parseFloat :: "jsval \<Rightarrow> jsnum" where
  "parseFloat v = parseFloat_str (ToString v)"

definition parseInt :: "jsval \<Rightarrow> jsnum" where
  "parseInt v = parseInt_str (ToString v)"

text \<open>\<^verbatim>\<open>===\<close> on primitives: same type and same value, and \<^verbatim>\<open>NaN\<close> equals nothing.\<close>

definition strict_eq :: "jsval \<Rightarrow> jsval \<Rightarrow> bool" where
  "strict_eq a b \<longleftrightarrow> a = b \<and> a \<noteq> Num NaN"

text \<open>
  What \<^verbatim>\<open>JSON.stringify\<close> makes of a number or of a field value, read back by
  \<^verbatim>\<open>JSON.parse\<close>: a number that is not finite is written as \<^verbatim>\<open>null\<close>.
\<close>

definition json_num :: "jsnum \<Rightarrow> jsval" where
  "json_num n = (case n of Fin r \<Rightarrow> Num (Fin r) | _ \<Rightarrow> Null)"

definition to_json :: "jsval \<Rightarrow> jsval" where
  "to_json v = (case v of Num n \<Rightarrow> json_num n | _ \<Rightarrow> v)"

subsection \<open>\<^verbatim>\<open>Number.prototype.toFixed(2)\<close>\<close>

text \<open>
  For a finite number below \<open>10\<^sup>2\<^sup>1\<close> in magnitude: the integer \<open>n\<close> with \<open>n / 100\<close>
  nearest to the magnitude (the larger one of two), printed with at least three digits and
  a point before the last two, after a minus sign for a negative number. Every other
  number is printed by \<open>Number::toString\<close>.
\<close>

definition toFixed2 :: "jsnum \<Rightarrow> string" where
  "toFixed2 v =
     (case v of
        Fin x \<Rightarrow>
          if 10 ^ 21 \<le> \<bar>x\<bar> then num_to_string v
          else
            let n = \<lfloor>\<bar>x\<bar> * 100 + 1 / 2\<rfloor>;
                m = dec_str n;
                m' = replicate (3 - length m) CHR ''0'' @ m;
                k = length m'
            in (if x < 0 then ''-'' else []) @ take (k - 2) m' @ ''.'' @ drop (k - 2) m'
      | _ \<Rightarrow> num_to_string v)"

section \<open>The payroll calculation\<close>

text \<open>
  \<^verbatim>\<open>calculatePayroll(grossPay, deductions = 0)\<close>: the second argument is \<open>None\<close> when
  omitted. The one call of the source passes two numbers.
\<close>

definition calculatePayroll :: "jsnum \<Rightarrow> jsnum option \<Rightarrow> jsnum" where
  "calculatePayroll grossPay deductions =
     js_sub grossPay (case deductions of None \<Rightarrow> Fin 0 | Some d \<Rightarrow> d)"

text \<open>\<^verbatim>\<open>parseFloat(netPay.toFixed(2))\<close>, the value stored as \<^verbatim>\<open>net_pay\<close>.\<close>

definition round_net_pay :: "jsnum \<Rightarrow> jsnum" where
  "round_net_pay netPay = parseFloat_str (toFixed2 netPay)"

section \<open>The record store\<close>

text \<open>
  The document kept in \<^verbatim>\<open>data.json\<close>. Records are modelled as they are in the file,
  that is after \<^verbatim>\<open>JSON.stringify\<close>: the fields copied from a request body are JSON
  values, an identifier or counter is the integer that its double holds.
\<close>

record employee =
  emp_id :: int
  employee_code :: jsval
  first_name :: jsval
  last_name :: jsval
  designation :: jsval
  department :: jsval
  email :: jsval
  bank_account :: jsval
  salary :: jsval
  created_at :: string

record payroll =
  pay_id :: int
  employee_id :: int
  pay_period_start :: jsval
  pay_period_end :: jsval
  gross_pay :: jsval
  deductions :: jsval
  net_pay :: jsval
  pay_created_at :: string

record document =
  employees :: "employee list"
  payrolls :: "payroll list"
  nextEmployeeId :: int
  nextPayrollId :: int

text \<open>
  The state of the data file: \<open>Unreadable\<close> when \<^verbatim>\<open>fs.readFileSync\<close> throws (the file
  is missing or cannot be read), \<open>Malformed\<close> when its text is not JSON and
  \<^verbatim>\<open>JSON.parse\<close> throws, \<open>Stored d\<close> when it holds the document \<open>d\<close>.
\<close>

datatype data_file = Unreadable | Malformed | Stored document

definition readData :: "data_file \<Rightarrow> document" where
  "readData f =
     (case f of
        Stored d \<Rightarrow> d
      | Unreadable \<Rightarrow> \<lparr>employees = [], payrolls = [], nextEmployeeId = 1, nextPayrollId = 1\<rparr>
      | Malformed \<Rightarrow> \<lparr>employees = [], payrolls = [], nextEmployeeId = 1, nextPayrollId = 1\<rparr>)"

text \<open>
  \<^verbatim>\<open>writeData\<close> returns whether \<^verbatim>\<open>fs.writeFileSync\<close> succeeded; \<open>ok\<close> says whether
  it does. A failed write is taken to leave the file as it was.
\<close>

definition writeData :: "bool \<Rightarrow> document \<Rightarrow> data_file \<Rightarrow> bool \<times> data_file" where
  "writeData ok d f = (if ok then (True, Stored d) else (False, f))"

section \<open>Requests and responses\<close>

text \<open>
  A request body is the object made by \<^verbatim>\<open>express.json()\<close>: a key that is absent reads
  as \<open>Undefined\<close>.
\<close>

type_synonym req_body = "string \<Rightarrow> jsval"

record payslip_employee =
  ps_id :: int
  ps_employee_code :: jsval
  ps_first_name :: jsval
  ps_last_name :: jsval
  ps_designation :: jsval
  ps_department :: jsval
  ps_email :: jsval
  ps_bank_account :: jsval

datatype payload =
    Error string
  | Message string
  | Health string
  | EmployeeBody employee
  | PayrollBody payroll
  | EmployeeList "employee list"
  | PayrollList "payroll list"
  | Payslip payroll payslip_employee

record response =
  status :: nat
  body :: payload

section \<open>Authentication\<close>

text \<open>\<^verbatim>\<open>process.env.ADMIN_KEY || 'admin123'\<close>: an unset or empty variable gives the default.\<close>

definition ADMIN_KEY :: "string option \<Rightarrow> string" where
  "ADMIN_KEY env =
     (case env of None \<Rightarrow> ''admin123'' | Some k \<Rightarrow> if k = [] then ''admin123'' else k)"

text \<open>\<^verbatim>\<open>s.split(' ')\<close>\<close>

fun split_space :: "string \<Rightarrow> string list" where
  "split_space [] = [[]]"
| "split_space (c # cs) =
     (if c = CHR '' '' then [] # split_space cs
      else case split_space cs of
             [] \<Rightarrow> [[c]]
           | w # ws \<Rightarrow> (c # w) # ws)"

text \<open>
  \<^verbatim>\<open>authHeader && authHeader.split(' ')[1]\<close>: the header itself when it is absent or
  empty, else the second piece of the header, \<open>Undefined\<close> when there is none.
\<close>

definition bearer_token :: "string option \<Rightarrow> jsval" where
  "bearer_token authHeader =
     (case authHeader of
        None \<Rightarrow> Undefined
      | Some h \<Rightarrow>
          if h = [] then Str h
          else (case split_space h of
                  _ # t # _ \<Rightarrow> Str t
                | _ \<Rightarrow> Undefined))"

text \<open>\<open>authenticateAdmin\<close> holds when the middleware calls \<^verbatim>\<open>next()\<close>.\<close>

definition authenticateAdmin :: "string option \<Rightarrow> string option \<Rightarrow> bool" where
  "authenticateAdmin env authHeader =
     (let token = bearer_token authHeader
      in \<not> (\<not> truthy token \<or> \<not> strict_eq token (Str (ADMIN_KEY env))))"

section \<open>The handlers\<close>

definition respond :: "nat \<Rightarrow> payload \<Rightarrow> response" where
  "respond code b = \<lparr>status = code, body = b\<rparr>"

definition unauthorized :: response where
  "unauthorized = respond 401 (Error ''Unauthorized. Valid API key required.'')"

definition get_health :: "string \<Rightarrow> data_file \<Rightarrow> response \<times> data_file" where
  "get_health now f = (respond 200 (Health now), f)"

definition get_employees :: "data_file \<Rightarrow> response \<times> data_file" where
  "get_employees f = (let data = readData f in (respond 200 (EmployeeList (employees data)), f))"

text \<open>
  \<^verbatim>\<open>POST /api/employees\<close>, after the middleware: \<open>b\<close> is the request body, \<open>now\<close> the
  time stamp \<^verbatim>\<open>new Date().toISOString()\<close>.
\<close>

definition post_employees :: "req_body \<Rightarrow> string \<Rightarrow> bool \<Rightarrow> data_file \<Rightarrow> response \<times> data_file" where
  "post_employees b now ok f =
     (if \<not> truthy (b ''employee_code'') \<or> \<not> truthy (b ''first_name'') \<or> \<not> truthy (b ''last_name'')
         \<or> \<not> truthy (b ''designation'') \<or> \<not> truthy (b ''department'') \<or> \<not> truthy (b ''email'')
         \<or> \<not> truthy (b ''bank_account'') \<or> \<not> truthy (b ''salary'')
      then (respond 400 (Error ''All fields are required''), f)
      else if isNaN (b ''salary'') \<or> le_zero (b ''salary'')
      then (respond 400 (Error ''Salary must be a positive number''), f)
      else
        let data = readData f
        in case find (\<lambda>emp. strict_eq (employee_code emp) (b ''employee_code'')) (employees data) of
             Some existingEmployee \<Rightarrow> (respond 400 (Error ''Employee code already exists''), f)
           | None \<Rightarrow>
               let newEmployee =
                     \<lparr>emp_id = nextEmployeeId data,
                      employee_code = to_json (b ''employee_code''),
                      first_name = to_json (b ''first_name''),
                      last_name = to_json (b ''last_name''),
                      designation = to_json (b ''designation''),
                      department = to_json (b ''department''),
                      email = to_json (b ''email''),
                      bank_account = to_json (b ''bank_account''),
                      salary = json_num (parseFloat (b ''salary'')),
                      created_at = now\<rparr>;
                   data' = data\<lparr>employees := employees data @ [newEmployee],
                                nextEmployeeId := js_inc (nextEmployeeId data)\<rparr>
               in (case writeData ok data' f of
                     (True, f') \<Rightarrow> (respond 201 (EmployeeBody newEmployee), f')
                   | (False, f') \<Rightarrow> (respond 500 (Error ''Failed to save employee data''), f')))"

definition get_payrolls :: "data_file \<Rightarrow> response \<times> data_file" where
  "get_payrolls f = (let data = readData f in (respond 200 (PayrollList (payrolls data)), f))"

text \<open>The integer a finite number stands for, to store \<^verbatim>\<open>parseInt(employee_id)\<close>.\<close>

definition num_int :: "jsnum \<Rightarrow> int" where
  "num_int n = (case n of Fin r \<Rightarrow> \<lfloor>r\<rfloor> | _ \<Rightarrow> 0)"

text \<open>
  \<^verbatim>\<open>POST /api/payrolls\<close>, after the middleware. The destructuring default
  \<^verbatim>\<open>deductions = 0\<close> applies to an absent key only. \<^verbatim>\<open>emp.id === parseInt(employee_id)\<close>
  compares two numbers.
\<close>

definition post_payrolls :: "req_body \<Rightarrow> string \<Rightarrow> bool \<Rightarrow> data_file \<Rightarrow> response \<times> data_file" where
  "post_payrolls b now ok f =
     (let deductions_v = (if b ''deductions'' = Undefined then Num (Fin 0) else b ''deductions'')
      in if \<not> truthy (b ''employee_id'') \<or> \<not> truthy (b ''pay_period_start'')
            \<or> \<not> truthy (b ''pay_period_end'') \<or> \<not> truthy (b ''gross_pay'')
         then (respond 400
                 (Error ''employee_id, pay_period_start, pay_period_end, and gross_pay are required''), f)
         else if isNaN (b ''gross_pay'') \<or> le_zero (b ''gross_pay'')
         then (respond 400 (Error ''Gross pay must be a positive number''), f)
         else if isNaN deductions_v \<or> lt_zero deductions_v
         then (respond 400 (Error ''Deductions must be a non-negative number''), f)
         else
           let data = readData f
           in case find (\<lambda>emp. Fin (of_int (emp_id emp)) = parseInt (b ''employee_id''))
                     (employees data) of
                None \<Rightarrow> (respond 404 (Error ''Employee not found''), f)
              | Some employee \<Rightarrow>
                  let netPay = calculatePayroll (parseFloat (b ''gross_pay''))
                                 (Some (parseFloat deductions_v));
                      newPayroll =
                        \<lparr>pay_id = nextPayrollId data,
                         employee_id = num_int (parseInt (b ''employee_id'')),
                         pay_period_start = to_json (b ''pay_period_start''),
                         pay_period_end = to_json (b ''pay_period_end''),
                         gross_pay = json_num (parseFloat (b ''gross_pay'')),
                         deductions = json_num (parseFloat deductions_v),
                         net_pay = json_num (round_net_pay netPay),
                         pay_created_at = now\<rparr>;
                      data' = data\<lparr>payrolls := payrolls data @ [newPayroll],
                                   nextPayrollId := js_inc (nextPayrollId data)\<rparr>
                  in (case writeData ok data' f of
                        (True, f') \<Rightarrow> (respond 201 (PayrollBody newPayroll), f')
                      | (False, f') \<Rightarrow> (respond 500 (Error ''Failed to save payroll data''), f')))"

text \<open>\<^verbatim>\<open>GET /api/payslip/:payroll_id\<close>: the route parameter is a string.\<close>

definition get_payslip :: "string \<Rightarrow> data_file \<Rightarrow> response \<times> data_file" where
  "get_payslip payroll_id f =
     (let payrollId = parseInt (Str payroll_id);
          data = readData f
      in case find (\<lambda>p. Fin (of_int (pay_id p)) = payrollId) (payrolls data) of
           None \<Rightarrow> (respond 404 (Error ''Payroll entry not found''), f)
         | Some payroll \<Rightarrow>
             (case find (\<lambda>emp. emp_id emp = employee_id payroll) (employees data) of
                None \<Rightarrow> (respond 404 (Error ''Employee not found for this payroll entry''), f)
              | Some employee \<Rightarrow>
                  (respond 200
                     (Payslip payroll
                        \<lparr>ps_id = emp_id employee,
                         ps_employee_code = employee_code employee,
                         ps_first_name = first_name employee,
                         ps_last_name = last_name employee,
                         ps_designation = designation employee,
                         ps_department = department employee,
                         ps_email = email employee,
                         ps_bank_account = bank_account employee\<rparr>), f)))"

text \<open>\<^verbatim>\<open>Array.prototype.findIndex\<close>, with \<open>None\<close> for \<^verbatim>\<open>-1\<close>.\<close>

fun findIndex :: "('a \<Rightarrow> bool) \<Rightarrow> 'a list \<Rightarrow> nat option" where
  "findIndex P [] = None"
| "findIndex P (x # xs) = (if P x then Some 0 else map_option Suc (findIndex P xs))"

text \<open>\<^verbatim>\<open>xs.splice(i, 1)\<close>: what is left of the array.\<close>

definition splice1 :: "nat \<Rightarrow> 'a list \<Rightarrow> 'a list" where
  "splice1 i xs = take i xs @ drop (Suc i) xs"

text \<open>\<^verbatim>\<open>DELETE /api/employees/:id\<close>, after the middleware.\<close>

definition delete_employee :: "string \<Rightarrow> bool \<Rightarrow> data_file \<Rightarrow> response \<times> data_file" where
  "delete_employee id_param ok f =
     (let employeeId = parseInt (Str id_param);
          data = readData f
      in case findIndex (\<lambda>emp. Fin (of_int (emp_id emp)) = employeeId) (employees data) of
           None \<Rightarrow> (respond 404 (Error ''Employee not found''), f)
         | Some employeeIndex \<Rightarrow>
             let data' = data\<lparr>employees := splice1 employeeIndex (employees data),
                              payrolls := filter (\<lambda>p. Fin (of_int (employee_id p)) \<noteq> employeeId)
                                            (payrolls data)\<rparr>
             in (case writeData ok data' f of
                   (True, f') \<Rightarrow>
                     (respond 200
                        (Message ''Employee and associated payroll entries deleted successfully''), f')
                 | (False, f') \<Rightarrow> (respond 500 (Error ''Failed to delete employee data''), f')))"

section \<open>The routes\<close>

text \<open>The routes of the API, with their route parameter.\<close>

datatype request =
    GetHealth
  | GetEmployees
  | PostEmployees
  | GetPayrolls
  | PostPayrolls
  | GetPayslip string
  | DeleteEmployee string

definition internal_error :: response where
  "internal_error = respond 500 (Error ''Internal server error'')"

text \<open>
  The application: \<open>env\<close> is the environment variable \<^verbatim>\<open>ADMIN_KEY\<close>, \<open>authHeader\<close>
  the \<^verbatim>\<open>Authorization\<close> header of the request, and \<open>json\<close> what
  \<^verbatim>\<open>express.json()\<close> makes of its body. That middleware runs first, on every request:
  \<open>json\<close> is \<open>None\<close> when it raises an error (a body that is not JSON text, is not an
  object or array, or is too large), which the error middleware of the server answers with
  500; otherwise it is the body object, empty when the request has no JSON body. On the three protected routes
  the middleware \<open>authenticateAdmin\<close> runs next, before the handler. The static pages and
  the answer to an unmatched route are not modelled.
\<close>

definition app ::
  "string option \<Rightarrow> string \<Rightarrow> bool \<Rightarrow> request \<Rightarrow> string option \<Rightarrow> req_body option \<Rightarrow> data_file
     \<Rightarrow> response \<times> data_file" where
  "app env now ok req authHeader json f =
     (case json of
        None \<Rightarrow> (internal_error, f)
      | Some b \<Rightarrow>
          (case req of
             GetHealth \<Rightarrow> get_health now f
           | GetEmployees \<Rightarrow> get_employees f
           | PostEmployees \<Rightarrow>
               if authenticateAdmin env authHeader then post_employees b now ok f
               else (unauthorized, f)
           | GetPayrolls \<Rightarrow> get_payrolls f
           | PostPayrolls \<Rightarrow>
               if authenticateAdmin env authHeader then post_payrolls b now ok f
               else (unauthorized, f)
           | GetPayslip payroll_id \<Rightarrow> get_payslip payroll_id f
           | DeleteEmployee id_param \<Rightarrow>
               if authenticateAdmin env authHeader then delete_employee id_param ok f
               else (unauthorized, f)))"

section \<open>Predicates on requests and documents\<close>

text \<open>
  The keys tested by the presence checks of the two creation handlers, and what it means
  for a body to pass every check a handler makes before it reads the data file.
\<close>

definition required_employee_fields :: "string list" where
  "required_employee_fields =
     [''employee_code'', ''first_name'', ''last_name'', ''designation'', ''department'',
      ''email'', ''bank_account'', ''salary'']"

definition required_payroll_fields :: "string list" where
  "required_payroll_fields = [''employee_id'', ''pay_period_start'', ''pay_period_end'', ''gross_pay'']"

definition employee_request_valid :: "req_body \<Rightarrow> bool" where
  "employee_request_valid b \<longleftrightarrow>
     list_all (\<lambda>k. truthy (b k)) required_employee_fields
     \<and> \<not> isNaN (b ''salary'') \<and> \<not> le_zero (b ''salary'')"

definition payroll_request_valid :: "req_body \<Rightarrow> bool" where
  "payroll_request_valid b \<longleftrightarrow>
     list_all (\<lambda>k. truthy (b k)) required_payroll_fields
     \<and> \<not> isNaN (b ''gross_pay'') \<and> \<not> le_zero (b ''gross_pay'')
     \<and> (b ''deductions'' = Undefined \<or> (\<not> isNaN (b ''deductions'') \<and> \<not> lt_zero (b ''deductions'')))"

text \<open>The employee codes of the stored document are pairwise distinct.\<close>

definition codes_unique :: "data_file \<Rightarrow> bool" where
  "codes_unique f \<longleftrightarrow> distinct (map employee_code (employees (readData f)))"

text \<open>
  The employee code of a body is a value that \<^verbatim>\<open>JSON.stringify\<close> writes as it is:
  any string, boolean or finite number. (A number literal too large for a double is read as
  \<^verbatim>\<open>Infinity\<close> and written back as \<^verbatim>\<open>null\<close>.)
\<close>

definition code_representable :: "req_body \<Rightarrow> bool" where
  "code_representable b \<longleftrightarrow> to_json (b ''employee_code'') = b ''employee_code''"

section \<open>Example requests and documents\<close>

text \<open>The requests of the concrete scenario of the specification, and documents around them.\<close>

definition no_fields :: req_body where
  "no_fields = (\<lambda>k. Undefined)"

definition ann_body :: req_body where
  "ann_body = no_fields
     (''employee_code'' := Str ''E1'', ''first_name'' := Str ''Ann'', ''last_name'' := Str ''Lee'',
      ''designation'' := Str ''Eng'', ''department'' := Str ''R&D'', ''email'' := Str ''a@x.com'',
      ''bank_account'' := Str ''123'', ''salary'' := Num (Fin 5000))"

definition january_body :: req_body where
  "january_body = no_fields
     (''employee_id'' := Num (Fin 1), ''pay_period_start'' := Str ''2024-01-01'',
      ''pay_period_end'' := Str ''2024-01-31'', ''gross_pay'' := Num (Fin 5000),
      ''deductions'' := Num (Fin 500))"

definition stamp :: string where
  "stamp = ''2024-02-01T09:00:00.000Z''"

definition ann :: employee where
  "ann = \<lparr>emp_id = 1, employee_code = Str ''E1'', first_name = Str ''Ann'', last_name = Str ''Lee'',
          designation = Str ''Eng'', department = Str ''R&D'', email = Str ''a@x.com'',
          bank_account = Str ''123'', salary = Num (Fin 5000), created_at = stamp\<rparr>"

definition bob :: employee where
  "bob = \<lparr>emp_id = 2, employee_code = Str ''E2'', first_name = Str ''Bob'', last_name = Str ''Ray'',
          designation = Str ''Ops'', department = Str ''IT'', email = Str ''b@x.com'',
          bank_account = Str ''456'', salary = Num (Fin 4000), created_at = stamp\<rparr>"

definition pay_slip_of :: "int \<Rightarrow> int \<Rightarrow> payroll" where
  "pay_slip_of i e =
     \<lparr>pay_id = i, employee_id = e, pay_period_start = Str ''2024-01-01'',
      pay_period_end = Str ''2024-01-31'', gross_pay = Num (Fin 5000), deductions = Num (Fin 500),
      net_pay = Num (Fin 4500), pay_created_at = stamp\<rparr>"

definition ann_file :: data_file where
  "ann_file = Stored \<lparr>employees = [ann], payrolls = [], nextEmployeeId = 2, nextPayrollId = 1\<rparr>"

definition staff_file :: data_file where
  "staff_file =
     Stored \<lparr>employees = [ann, bob],
             payrolls = [pay_slip_of 1 1, pay_slip_of 2 2, pay_slip_of 3 1],
             nextEmployeeId = 3, nextPayrollId = 4\<rparr>"

text \<open>A file edited by hand: its one payroll names an employee that is not there.\<close>

definition orphan_file :: data_file where
  "orphan_file =
     Stored \<lparr>employees = [bob], payrolls = [pay_slip_of 1 1], nextEmployeeId = 3, nextPayrollId = 2\<rparr>"

text \<open>A request that creates \<open>bob\<close>.\<close>

definition bob_body :: req_body where
  "bob_body = no_fields
     (''employee_code'' := Str ''E2'', ''first_name'' := Str ''Bob'', ''last_name'' := Str ''Ray'',
      ''designation'' := Str ''Ops'', ''department'' := Str ''IT'', ''email'' := Str ''b@x.com'',
      ''bank_account'' := Str ''456'', ''salary'' := Num (Fin 4000))"

text \<open>
  The same request with an employee code written \<^verbatim>\<open>1e999\<close> in the JSON text, which
  \<^verbatim>\<open>JSON.parse\<close> reads as \<^verbatim>\<open>Infinity\<close>.
\<close>

definition overflow_code_body :: req_body where
  "overflow_code_body = bob_body(''employee_code'' := Num PosInf)"

text \<open>A document whose employee counter has reached \<open>2\<^sup>5\<^sup>3\<close>.\<close>

definition full_counter_file :: data_file where
  "full_counter_file =
     Stored \<lparr>employees = [], payrolls = [], nextEmployeeId = 9007199254740992,
             nextPayrollId = 1\<rparr>"

text \<open>
  The payroll request of the scenario for employee 99, who does not exist, and with
  \<^verbatim>\<open>employee_id: 1.5\<close>, which is the id of no employee.
\<close>

definition unknown_id_body :: req_body where
  "unknown_id_body = january_body(''employee_id'' := Num (Fin 99))"

definition half_id_body :: req_body where
  "half_id_body = january_body(''employee_id'' := Num (Fin (3 / 2)))"

text \<open>The payroll request of the scenario with \<^verbatim>\<open>employee_id: 0\<close>, an id no employee has.\<close>

definition zero_id_body :: req_body where
  "zero_id_body = january_body(''employee_id'' := Num (Fin 0))"

text \<open>The same request for employee 99, who does not exist, with a negative gross pay.\<close>

definition negative_gross_body :: req_body where
  "negative_gross_body =
     january_body(''employee_id'' := Num (Fin 99), ''gross_pay'' := Num (Fin (- 5)))"

section \<open>Auxiliary facts\<close>

lemma truthy_strict_eq: "truthy c \<Longrightarrow> strict_eq c c"
  by (auto simp: truthy_def strict_eq_def)

lemma truthy_not_NaN: "truthy c \<Longrightarrow> c \<noteq> Num NaN"
  by (auto simp: truthy_def)

lemma zero_deductions_pass: "\<not> isNaN (Num (Fin 0))" "\<not> lt_zero (Num (Fin 0))"
  by (simp_all add: isNaN_def lt_zero_def ToNumber_def)

lemma findIndex_None: "findIndex P xs = None \<longleftrightarrow> (\<forall>x\<in>set xs. \<not> P x)"
  by (induction xs) auto

lemma findIndex_Some:
  "findIndex P xs = Some i \<Longrightarrow>
     \<exists>ys e zs. xs = ys @ e # zs \<and> P e \<and> (\<forall>y\<in>set ys. \<not> P y) \<and> i = length ys"
proof (induction xs arbitrary: i)
  case Nil
  then show ?case by simp
next
  case (Cons x xs)
  show ?case
  proof (cases "P x")
    case True
    with Cons.prems have "i = 0" by simp
    with True show ?thesis by (intro exI[of _ "[]"] exI[of _ x] exI[of _ xs]) simp
  next
    case False
    with Cons.prems obtain j where j: "findIndex P xs = Some j" "i = Suc j" by auto
    from Cons.IH[OF j(1)] obtain ys e zs where
      "xs = ys @ e # zs" "P e" "\<forall>y\<in>set ys. \<not> P y" "j = length ys" by blast
    with False j(2) show ?thesis
      by (intro exI[of _ "x # ys"] exI[of _ e] exI[of _ zs]) simp
  qed
qed

lemma document_update:
  "d\<lparr>employees := es, payrolls := ps\<rparr> =
     \<lparr>employees = es, payrolls = ps, nextEmployeeId = nextEmployeeId d,
      nextPayrollId = nextPayrollId d\<rparr>"
  by (cases d) simp

lemma document_add_employee:
  "d\<lparr>employees := es, nextEmployeeId := n\<rparr> =
     \<lparr>employees = es, payrolls = payrolls d, nextEmployeeId = n, nextPayrollId = nextPayrollId d\<rparr>"
  by (cases d) simp

lemma splice1_split: "splice1 (length ys) (ys @ e # zs) = ys @ zs"
  by (simp add: splice1_def)

lemma ADMIN_KEY_nonempty: "ADMIN_KEY env \<noteq> []"
  by (simp add: ADMIN_KEY_def split: option.splits)

lemma split_space_no_space: "CHR '' '' \<notin> set t \<Longrightarrow> split_space t = [t]"
  by (induction t) auto

lemma split_space_nonempty: "split_space s \<noteq> []"
  by (induction s) (auto split: list.splits)

lemma split_space_first:
  "CHR '' '' \<notin> set a \<Longrightarrow> split_space (a @ CHR '' '' # r) = a # split_space r"
  by (induction a) auto

lemma split_space_head:
  "split_space r = q # ps \<Longrightarrow>
     CHR '' '' \<notin> set q \<and> (\<exists>rest. r = q @ rest \<and> (rest = [] \<or> (\<exists>r'. rest = CHR '' '' # r')))"
proof (induction r arbitrary: q ps)
  case Nil
  then show ?case by simp
next
  case (Cons c cs)
  show ?case
  proof (cases "c = CHR '' ''")
    case True
    with Cons.prems show ?thesis by simp
  next
    case False
    obtain w ws where w: "split_space cs = w # ws"
      using split_space_nonempty [of cs] by (cases "split_space cs") auto
    with False Cons.prems have q: "q = c # w" by simp
    from Cons.IH [OF w] obtain rest where
      "CHR '' '' \<notin> set w" "cs = w @ rest" "rest = [] \<or> (\<exists>r'. rest = CHR '' '' # r')"
      by blast
    with False q show ?thesis by auto
  qed
qed

lemma split_space_second:
  "split_space h = p # q # ps \<Longrightarrow> \<exists>r. h = p @ CHR '' '' # r \<and> split_space r = q # ps"
proof (induction h arbitrary: p)
  case Nil
  then show ?case by simp
next
  case (Cons c cs)
  show ?case
  proof (cases "c = CHR '' ''")
    case True
    with Cons.prems show ?thesis by simp
  next
    case False
    obtain w ws where w: "split_space cs = w # ws"
      using split_space_nonempty [of cs] by (cases "split_space cs") auto
    with False Cons.prems have pq: "p = c # w" "ws = q # ps" by simp_all
    from Cons.IH [of w] w pq(2) obtain r where "cs = w @ CHR '' '' # r" "split_space r = q # ps"
      by auto
    with pq(1) show ?thesis by simp
  qed
qed

lemma authenticateAdmin_iff:
  "authenticateAdmin env authHeader \<longleftrightarrow> bearer_token authHeader = Str (ADMIN_KEY env)"
  using ADMIN_KEY_nonempty [of env]
  by (auto simp: authenticateAdmin_def Let_def strict_eq_def truthy_def)

text \<open>
  The middleware lets a header pass exactly when it is a piece without a space, a space,
  the key, and then nothing or a space and anything; so the key itself has no space.
\<close>

lemma authenticateAdmin_header:
  "authenticateAdmin env authHeader \<longleftrightarrow>
     (\<exists>a rest. authHeader = Some (a @ CHR '' '' # ADMIN_KEY env @ rest)
        \<and> CHR '' '' \<notin> set a \<and> CHR '' '' \<notin> set (ADMIN_KEY env)
        \<and> (rest = [] \<or> (\<exists>r. rest = CHR '' '' # r)))"
proof
  assume "authenticateAdmin env authHeader"
  then have tok: "bearer_token authHeader = Str (ADMIN_KEY env)"
    by (simp add: authenticateAdmin_iff)
  then obtain h where h: "authHeader = Some h"
    by (cases authHeader) (auto simp: bearer_token_def)
  from tok h ADMIN_KEY_nonempty [of env] have "h \<noteq> []"
    by (auto simp: bearer_token_def)
  with tok h obtain p ps where sp: "split_space h = p # ADMIN_KEY env # ps"
    by (auto simp: bearer_token_def split: list.splits)
  from split_space_second [OF sp] obtain r where
    r: "h = p @ CHR '' '' # r" "split_space r = ADMIN_KEY env # ps" by blast
  from split_space_head [OF sp] have p: "CHR '' '' \<notin> set p" by simp
  from split_space_head [OF r(2)] obtain rest where
    "CHR '' '' \<notin> set (ADMIN_KEY env)" "r = ADMIN_KEY env @ rest"
    "rest = [] \<or> (\<exists>r'. rest = CHR '' '' # r')"
    by blast
  with h r(1) p show "\<exists>a rest. authHeader = Some (a @ CHR '' '' # ADMIN_KEY env @ rest)
        \<and> CHR '' '' \<notin> set a \<and> CHR '' '' \<notin> set (ADMIN_KEY env)
        \<and> (rest = [] \<or> (\<exists>r. rest = CHR '' '' # r))"
    by blast
next
  assume "\<exists>a rest. authHeader = Some (a @ CHR '' '' # ADMIN_KEY env @ rest)
        \<and> CHR '' '' \<notin> set a \<and> CHR '' '' \<notin> set (ADMIN_KEY env)
        \<and> (rest = [] \<or> (\<exists>r. rest = CHR '' '' # r))"
  then obtain a rest where
    h: "authHeader = Some (a @ CHR '' '' # ADMIN_KEY env @ rest)"
    and a: "CHR '' '' \<notin> set a" and k: "CHR '' '' \<notin> set (ADMIN_KEY env)"
    and rest: "rest = [] \<or> (\<exists>r. rest = CHR '' '' # r)"
    by blast
  from rest k have "\<exists>ps. split_space (ADMIN_KEY env @ rest) = ADMIN_KEY env # ps"
    by (auto simp: split_space_no_space split_space_first)
  with a obtain ps where
    "split_space (a @ CHR '' '' # ADMIN_KEY env @ rest) = a # ADMIN_KEY env # ps"
    by (auto simp: split_space_first)
  with h have "bearer_token authHeader = Str (ADMIN_KEY env)"
    by (simp add: bearer_token_def)
  then show "authenticateAdmin env authHeader"
    by (simp add: authenticateAdmin_iff)
qed

text \<open>Integers below \<open>2\<^sup>5\<^sup>3\<close> in magnitude are doubles, and \<^verbatim>\<open>++\<close> is exact on them.\<close>

lemma ndigits_nonneg: "0 \<le> ndigits b a"
proof (induction b a rule: ndigits.induct)
  case (1 b a)
  then show ?case by (subst ndigits.simps) simp
qed

lemma ndigits_le: "0 \<le> a \<Longrightarrow> a < 2 ^ k \<Longrightarrow> ndigits 2 a \<le> int k"
proof (induction k arbitrary: a)
  case 0
  then have "a = 0" by simp
  then show ?case by (subst ndigits.simps) simp
next
  case (Suc k)
  show ?case
  proof (cases "a = 0")
    case True
    then show ?thesis by (subst ndigits.simps) simp
  next
    case False
    from Suc.prems have "0 \<le> a div 2" "a div 2 < 2 ^ k" by auto
    from Suc.IH [OF this] False Suc.prems(1) show ?thesis
      by (subst ndigits.simps) simp
  qed
qed

lemma round_half_even_int: "round_half_even (of_int k) = k"
  by (simp add: round_half_even_def)

lemma rne_of_int:
  assumes "\<bar>m\<bar> < 2 ^ 53"
  shows "rne (of_int m) = Fin (of_int m)"
proof (cases "m = 0")
  case True
  then show ?thesis by (simp add: rne_def)
next
  case False
  define e where "e = ndigits 2 \<bar>m\<bar> - 1"
  define j where "j = nat (52 - e)"
  from False have pos: "0 < \<bar>m\<bar>" by simp
  then have "ndigits 2 \<bar>m\<bar> = ndigits 2 (\<bar>m\<bar> div 2) + 1"
    by (subst ndigits.simps) simp
  with ndigits_nonneg [of 2 "\<bar>m\<bar> div 2"] have e0: "0 \<le> e" by (simp add: e_def)
  from ndigits_le [of "\<bar>m\<bar>" 53] assms have e52: "e \<le> 52" by (simp add: e_def)
  from pos have "1 \<le> \<bar>m\<bar>" by simp
  then have "(of_int 1 :: rat) \<le> of_int \<bar>m\<bar>" by (simp only: of_int_le_iff)
  then have one: "(1::rat) \<le> \<bar>of_int m\<bar>" by simp
  have il: "ilog 2 \<bar>of_int m :: rat\<bar> = e"
    using one by (simp add: ilog_def e_def flip: of_int_abs)
  have mx: "max e (- 1022) = e" using e0 by simp
  have u: "pow_int 2 (e - 52) = 1 / of_int (2 ^ j)"
    using e52 by (auto simp: pow_int_def j_def)
  have q: "of_int m / (1 / of_int (2 ^ j)) = (of_int (m * 2 ^ j) :: rat)" by simp
  have y: "of_int (round_half_even (of_int (m * 2 ^ j))) * (1 / of_int (2 ^ j)) = (of_int m :: rat)"
    by (simp only: round_half_even_int) simp
  have "\<bar>m\<bar> < 2 ^ 1024" using assms by (rule less_trans) simp
  then have "\<bar>of_int m :: rat\<bar> < of_int (2 ^ 1024)"
    by (simp only: of_int_abs [symmetric] of_int_less_iff)
  then have big: "\<not> pow_int 2 1024 \<le> \<bar>of_int m :: rat\<bar>"
    by (simp add: pow_int_def)
  from False have nz: "(of_int m :: rat) \<noteq> 0" by simp
  show ?thesis
    unfolding rne_def Let_def il mx u q y
    using nz big by simp
qed

lemma js_inc_exact:
  assumes "\<bar>n\<bar> < 2 ^ 53"
  shows "js_inc n = n + 1"
proof (cases "n = 2 ^ 53 - 1")
  case True
  have "js_inc 9007199254740991 = 9007199254740992" by code_simp
  with True show ?thesis by simp
next
  case False
  with assms have "\<bar>n + 1\<bar> < 2 ^ 53" by simp
  from rne_of_int [OF this] show ?thesis
    by (simp add: js_inc_def)
qed

lemma post_employees_codes:
  assumes "codes_unique f" and "to_json (b ''employee_code'') = b ''employee_code''"
  shows "codes_unique (snd (post_employees b now ok f))"
proof (cases "employee_request_valid b
    \<and> find (\<lambda>emp. strict_eq (employee_code emp) (b ''employee_code'')) (employees (readData f)) = None
    \<and> ok")
  case True
  then have t: "truthy (b ''employee_code'')"
    by (simp add: employee_request_valid_def required_employee_fields_def)
  from True have "\<forall>e\<in>set (employees (readData f)).
      \<not> strict_eq (employee_code e) (b ''employee_code'')"
    by (simp add: find_None_iff)
  with truthy_not_NaN [OF t] have "b ''employee_code'' \<notin> employee_code ` set (employees (readData f))"
    by (auto simp: strict_eq_def)
  with True assms show ?thesis
    by (simp add: post_employees_def employee_request_valid_def required_employee_fields_def
          Let_def writeData_def codes_unique_def readData_def)
next
  case False
  then have "snd (post_employees b now ok f) = f"
    by (auto simp: post_employees_def employee_request_valid_def required_employee_fields_def
          Let_def writeData_def split: option.splits)
  with assms(1) show ?thesis by simp
qed

lemma post_payrolls_employees:
  "employees (readData (snd (post_payrolls b now ok f))) = employees (readData f)"
  by (auto simp: post_payrolls_def Let_def writeData_def readData_def split: option.splits)

lemma delete_employee_codes:
  assumes "codes_unique f"
  shows "codes_unique (snd (delete_employee p ok f))"
proof (cases "findIndex (\<lambda>emp. Fin (of_int (emp_id emp)) = parseInt (Str p)) (employees (readData f))")
  case None
  with assms show ?thesis by (simp add: delete_employee_def Let_def)
next
  case (Some i)
  from findIndex_Some [OF Some] obtain ys e zs where
    s: "employees (readData f) = ys @ e # zs" "i = length ys" by blast
  with assms have "distinct (map employee_code (ys @ zs))"
    by (simp add: codes_unique_def)
  with Some s assms show ?thesis
    by (simp add: delete_employee_def Let_def writeData_def splice1_split codes_unique_def
          readData_def)
qed
















section \<open>Creating an employee\<close>

text \<open>
  Claim C1, as amended. A creation request that passes the presence and salary checks,
  whose employee code no stored employee has, and whose write succeeds, is answered with 201
  and the new employee; the employee's id is the \<open>nextEmployeeId\<close> read before the call,
  and the document written has the new employee appended, nothing else changed, and the
  counter after \<^verbatim>\<open>++\<close>: the double nearest to the counter plus one, which is exactly one
  greater when the counter is below \<open>2\<^sup>5\<^sup>3\<close> in magnitude.
\<close>

theorem create_employee_assigns_next_id:
  assumes "employee_request_valid b"
    and "\<forall>e\<in>set (employees (readData f)). \<not> strict_eq (employee_code e) (b ''employee_code'')"
  shows "\<exists>emp d'. post_employees b now True f = (respond 201 (EmployeeBody emp), Stored d')
           \<and> emp_id emp = nextEmployeeId (readData f)
           \<and> nextEmployeeId d' = js_inc (nextEmployeeId (readData f))
           \<and> (\<bar>nextEmployeeId (readData f)\<bar> < 2 ^ 53 \<longrightarrow>
                nextEmployeeId d' = nextEmployeeId (readData f) + 1)
           \<and> employees d' = employees (readData f) @ [emp]
           \<and> payrolls d' = payrolls (readData f)
           \<and> nextPayrollId d' = nextPayrollId (readData f)"
proof -
  from assms(2)
  have none: "find (\<lambda>emp. strict_eq (employee_code emp) (b ''employee_code''))
                (employees (readData f)) = None"
    by (simp add: find_None_iff)
  from assms(1) show ?thesis
    by (simp add: post_employees_def employee_request_valid_def required_employee_fields_def
          none Let_def writeData_def document_add_employee js_inc_exact)
qed

text \<open>
  A second employee, created on the file that holds the first, whose code differs: it gets
  id 2, the counter becomes 3, and it is stored after the first.
\<close>

theorem create_employee_assigns_next_id_witness:
  "\<exists>emp d'. post_employees bob_body stamp True ann_file = (respond 201 (EmployeeBody emp), Stored d')
     \<and> emp_id emp = 2 \<and> nextEmployeeId d' = 3 \<and> employees d' = [ann, emp]"
proof -
  have 1: "employee_request_valid bob_body" by code_simp
  have 2: "\<forall>e\<in>set (employees (readData ann_file)).
             \<not> strict_eq (employee_code e) (bob_body ''employee_code'')"
    by (simp add: ann_file_def readData_def ann_def bob_body_def no_fields_def strict_eq_def)
  have 3: "readData ann_file =
      \<lparr>employees = [ann], payrolls = [], nextEmployeeId = 2, nextPayrollId = 1\<rparr>"
    by (simp add: ann_file_def readData_def)
  from create_employee_assigns_next_id [where b = bob_body and f = ann_file and now = stamp, OF 1 2]
  show ?thesis unfolding 3 by auto
qed

text \<open>
  Claim C1 as stated fails: on a document whose counter is \<open>2\<^sup>5\<^sup>3\<close> a valid creation
  is answered with 201 and the id \<open>2\<^sup>5\<^sup>3\<close>, and the counter written is \<open>2\<^sup>5\<^sup>3\<close>
  again, not one greater.
\<close>

theorem counter_increment_counterexample:
  "employee_request_valid ann_body
   \<and> employees (readData full_counter_file) = []
   \<and> nextEmployeeId (readData full_counter_file) = 9007199254740992
   \<and> status (fst (post_employees ann_body stamp True full_counter_file)) = 201
   \<and> nextEmployeeId (readData (snd (post_employees ann_body stamp True full_counter_file))) =
       9007199254740992
   \<and> nextEmployeeId (readData (snd (post_employees ann_body stamp True full_counter_file))) \<noteq>
       nextEmployeeId (readData full_counter_file) + 1"
  by code_simp

text \<open>
  Claim C2, as amended. When the employee code of a request is the code of a stored
  employee, the document is not modified and the answer has status 400, whatever the other
  fields hold; when the request passes the presence and salary checks, the answer is 400
  with the message \<^verbatim>\<open>Employee code already exists\<close>. The handler has no 409.
\<close>

theorem duplicate_code_rejected:
  assumes "e \<in> set (employees (readData f))"
    and "employee_code e = b ''employee_code''"
  shows "snd (post_employees b now ok f) = f
       \<and> status (fst (post_employees b now ok f)) = 400
       \<and> (employee_request_valid b \<longrightarrow>
            post_employees b now ok f = (respond 400 (Error ''Employee code already exists''), f))"
proof (cases "employee_request_valid b")
  case True
  then have "truthy (b ''employee_code'')"
    by (simp add: employee_request_valid_def required_employee_fields_def)
  with assms have "strict_eq (employee_code e) (b ''employee_code'')"
    by (simp add: truthy_strict_eq)
  with assms(1) obtain x where
    "find (\<lambda>emp. strict_eq (employee_code emp) (b ''employee_code'')) (employees (readData f)) = Some x"
    by (cases "find (\<lambda>emp. strict_eq (employee_code emp) (b ''employee_code''))
                 (employees (readData f))") (auto simp: find_None_iff)
  with True have "post_employees b now ok f = (respond 400 (Error ''Employee code already exists''), f)"
    by (simp add: post_employees_def employee_request_valid_def required_employee_fields_def Let_def)
  then show ?thesis by (simp add: respond_def)
next
  case False
  then have "post_employees b now ok f = (respond 400 (Error ''All fields are required''), f)
           \<or> post_employees b now ok f = (respond 400 (Error ''Salary must be a positive number''), f)"
    by (auto simp: post_employees_def employee_request_valid_def required_employee_fields_def)
  with False show ?thesis by (auto simp: respond_def)
qed

text \<open>Creating the employee of the scenario a second time.\<close>

theorem duplicate_code_rejected_witness:
  "post_employees ann_body stamp True ann_file =
     (respond 400 (Error ''Employee code already exists''), ann_file)"
proof -
  have 1: "ann \<in> set (employees (readData ann_file))" by (simp add: ann_file_def readData_def)
  have 2: "employee_code ann = ann_body ''employee_code''"
    by (simp add: ann_def ann_body_def no_fields_def)
  have 3: "employee_request_valid ann_body" by code_simp
  from duplicate_code_rejected
         [where e = ann and f = ann_file and b = ann_body and now = stamp and ok = True, OF 1 2] 3
  show ?thesis by simp
qed

text \<open>
  Claim C2 as stated fails: the same request, whose code is the stored one, is answered
  with status 400, not 409.
\<close>

theorem duplicate_code_409_counterexample:
  "employees (readData ann_file) = [ann] \<and> employee_code ann = ann_body ''employee_code''
   \<and> employee_request_valid ann_body
   \<and> status (fst (post_employees ann_body stamp True ann_file)) = 400
   \<and> status (fst (post_employees ann_body stamp True ann_file)) \<noteq> 409"
  by code_simp

section \<open>Deleting an employee\<close>

text \<open>
  Claim C3. When the route parameter parses to the id \<open>X\<close> of a stored employee, the
  handler takes the first employee with id \<open>X\<close> out of the list (the only one when ids
  are distinct), keeping the others in order, and keeps exactly the payrolls whose
  \<open>employee_id\<close> is not \<open>X\<close>, in order. Both changes are in the one document handed
  to the one write: when the write succeeds the file holds that document, when it fails
  the file is unchanged and the answer is 500.
\<close>

theorem delete_employee_cascade:
  assumes "parseInt (Str id_param) = Fin (of_int X)"
    and "X \<in> emp_id ` set (employees (readData f))"
  shows "\<exists>ys e zs.
           employees (readData f) = ys @ e # zs \<and> emp_id e = X \<and> (\<forall>y\<in>set ys. emp_id y \<noteq> X)
         \<and> delete_employee id_param ok f =
             (if ok
              then (respond 200
                      (Message ''Employee and associated payroll entries deleted successfully''),
                    Stored \<lparr>employees = ys @ zs,
                            payrolls = filter (\<lambda>p. employee_id p \<noteq> X) (payrolls (readData f)),
                            nextEmployeeId = nextEmployeeId (readData f),
                            nextPayrollId = nextPayrollId (readData f)\<rparr>)
              else (respond 500 (Error ''Failed to delete employee data''), f))
         \<and> (distinct (map emp_id (employees (readData f))) \<longrightarrow> X \<notin> emp_id ` set (ys @ zs))"
proof -
  let ?P = "\<lambda>emp. Fin (of_int (emp_id emp)) = Fin (of_int X)"
  from assms(2) obtain i where i: "findIndex ?P (employees (readData f)) = Some i"
    by (cases "findIndex ?P (employees (readData f))") (auto simp: findIndex_None)
  from findIndex_Some[OF i] obtain ys e zs where
    split: "employees (readData f) = ys @ e # zs" "emp_id e = X" "\<forall>y\<in>set ys. emp_id y \<noteq> X"
      "i = length ys"
    by auto
  have del: "delete_employee id_param ok f =
      (if ok
       then (respond 200
               (Message ''Employee and associated payroll entries deleted successfully''),
             Stored \<lparr>employees = ys @ zs,
                     payrolls = filter (\<lambda>p. employee_id p \<noteq> X) (payrolls (readData f)),
                     nextEmployeeId = nextEmployeeId (readData f),
                     nextPayrollId = nextPayrollId (readData f)\<rparr>)
       else (respond 500 (Error ''Failed to delete employee data''), f))"
    using i split(1,4) assms(1)
    by (simp add: delete_employee_def writeData_def splice1_split Let_def document_update)
  have "distinct (map emp_id (employees (readData f))) \<longrightarrow> X \<notin> emp_id ` set (ys @ zs)"
    using split(1,2) by auto
  with split(1,2,3) del show ?thesis by blast
qed

text \<open>Deleting employee 1 of two employees with three payrolls.\<close>

theorem delete_employee_cascade_witness:
  "delete_employee ''1'' True staff_file =
     (respond 200 (Message ''Employee and associated payroll entries deleted successfully''),
      Stored \<lparr>employees = [bob], payrolls = [pay_slip_of 2 2], nextEmployeeId = 3,
              nextPayrollId = 4\<rparr>)"
proof -
  have 1: "parseInt (Str ''1'') = Fin (of_int 1)" by code_simp
  have 2: "1 \<in> emp_id ` set (employees (readData staff_file))"
    by (simp add: staff_file_def readData_def ann_def)
  from delete_employee_cascade [OF 1 2, of True] obtain ys e zs where
    s: "employees (readData staff_file) = ys @ e # zs" "emp_id e = 1" "\<forall>y\<in>set ys. emp_id y \<noteq> 1"
    and d: "delete_employee ''1'' True staff_file =
      (respond 200 (Message ''Employee and associated payroll entries deleted successfully''),
       Stored \<lparr>employees = ys @ zs,
               payrolls = filter (\<lambda>p. employee_id p \<noteq> 1) (payrolls (readData staff_file)),
               nextEmployeeId = nextEmployeeId (readData staff_file),
               nextPayrollId = nextPayrollId (readData staff_file)\<rparr>)"
    by auto
  from s have "ys = [] \<and> zs = [bob]"
    by (cases ys) (auto simp: staff_file_def readData_def ann_def bob_def Cons_eq_append_conv)
  with d show ?thesis
    by (simp add: staff_file_def readData_def pay_slip_of_def)
qed

section \<open>Creating a payroll\<close>

text \<open>
  Claim C4, as amended. When no stored employee has the id that \<^verbatim>\<open>parseInt\<close> reads
  from \<open>employee_id\<close>, the document is unchanged, so the payrolls and \<open>nextPayrollId\<close>
  keep their values; the answer is 404 \<^verbatim>\<open>Employee not found\<close> when the request passes
  the presence and number checks, which come first, and 400 when it does not.
\<close>

theorem payroll_unknown_employee:
  assumes "\<forall>e\<in>set (employees (readData f)). Fin (of_int (emp_id e)) \<noteq> parseInt (b ''employee_id'')"
  shows "snd (post_payrolls b now ok f) = f
       \<and> (payroll_request_valid b \<longrightarrow>
            post_payrolls b now ok f = (respond 404 (Error ''Employee not found''), f))
       \<and> (\<not> payroll_request_valid b \<longrightarrow> status (fst (post_payrolls b now ok f)) = 400)"
proof -
  from assms
  have none: "find (\<lambda>emp. Fin (of_int (emp_id emp)) = parseInt (b ''employee_id''))
                (employees (readData f)) = None"
    by (simp add: find_None_iff)
  show ?thesis
    by (auto simp: post_payrolls_def payroll_request_valid_def required_payroll_fields_def
          none Let_def respond_def zero_deductions_pass)
qed

text \<open>The payroll of the scenario, requested for employee 99 on a file that holds employee 1.\<close>

theorem payroll_unknown_employee_witness:
  "post_payrolls unknown_id_body stamp True ann_file =
     (respond 404 (Error ''Employee not found''), ann_file)"
proof -
  have 1: "\<forall>e\<in>set (employees (readData ann_file)).
             Fin (of_int (emp_id e)) \<noteq> parseInt (unknown_id_body ''employee_id'')"
  proof -
    have "parseInt (unknown_id_body ''employee_id'') = Fin 99" by code_simp
    then show ?thesis by (simp add: ann_file_def readData_def ann_def)
  qed
  have 2: "payroll_request_valid unknown_id_body" by code_simp
  from payroll_unknown_employee
         [where f = ann_file and b = unknown_id_body and now = stamp and ok = True, OF 1] 2
  show ?thesis by simp
qed

text \<open>
  Claim C4 as stated fails, in two ways. The checks come first: a request for employee 99,
  who does not exist, with a negative gross pay is answered with 400, and so is the request
  of the scenario with \<open>employee_id\<close> 0. And the id is read by \<^verbatim>\<open>parseInt\<close>: the
  request with \<open>employee_id\<close> 1.5, the id of no employee, is answered with 201, and a
  payroll for employee 1 is stored and the counter advanced.
\<close>

theorem payroll_not_found_counterexample:
  "employees (readData ann_file) = [ann] \<and> emp_id ann = 1
   \<and> parseInt (negative_gross_body ''employee_id'') = Fin 99
   \<and> post_payrolls negative_gross_body stamp True ann_file =
       (respond 400 (Error ''Gross pay must be a positive number''), ann_file)
   \<and> parseInt (zero_id_body ''employee_id'') = Fin 0
   \<and> post_payrolls zero_id_body stamp True ann_file =
       (respond 400
          (Error ''employee_id, pay_period_start, pay_period_end, and gross_pay are required''),
        ann_file)
   \<and> half_id_body ''employee_id'' = Num (Fin (3 / 2))
   \<and> post_payrolls half_id_body stamp True ann_file =
       (respond 201 (PayrollBody (pay_slip_of 1 1)),
        Stored \<lparr>employees = [ann], payrolls = [pay_slip_of 1 1], nextEmployeeId = 2,
                nextPayrollId = 2\<rparr>)"
  by code_simp

section \<open>Employee codes stay unique\<close>

text \<open>
  Claim C5, as amended. Every request to the application, made on a data file whose
  employee codes are pairwise distinct, leaves a data file whose employee codes are pairwise
  distinct, provided the employee code of a creation request is a value that JSON
  represents: a string, a boolean or a finite number.
\<close>

theorem employee_code_unique_preserved:
  assumes "codes_unique f"
    and "req = PostEmployees \<longrightarrow> (\<forall>b. json = Some b \<longrightarrow> code_representable b)"
  shows "codes_unique (snd (app env now ok req authHeader json f))"
proof (cases json)
  case None
  with assms(1) show ?thesis by (simp add: app_def)
next
  case (Some b)
  show ?thesis
  proof (cases req)
    case PostEmployees
    with assms Some show ?thesis
      by (simp add: app_def code_representable_def post_employees_codes)
  next
    case PostPayrolls
    with assms(1) Some show ?thesis
      by (simp add: app_def codes_unique_def post_payrolls_employees)
  next
    case (DeleteEmployee p)
    with assms(1) Some show ?thesis
      by (simp add: app_def delete_employee_codes)
  qed (use assms(1) Some in \<open>simp_all add: app_def get_health_def get_employees_def
        get_payrolls_def get_payslip_def Let_def split: option.splits\<close>)
qed

text \<open>
  An authorized request that creates a second employee, with another code, and one that
  deletes the first of two employees.
\<close>

theorem employee_code_unique_preserved_witness:
  "codes_unique ann_file
   \<and> snd (app None stamp True PostEmployees (Some ''Bearer admin123'') (Some bob_body) ann_file) =
       Stored \<lparr>employees = [ann, bob], payrolls = [], nextEmployeeId = 3, nextPayrollId = 1\<rparr>
   \<and> codes_unique
        (snd (app None stamp True PostEmployees (Some ''Bearer admin123'') (Some bob_body) ann_file))
   \<and> codes_unique
        (snd (app None stamp True (DeleteEmployee ''1'') (Some ''Bearer admin123'') (Some no_fields)
                staff_file))"
proof -
  have 1: "codes_unique ann_file" "codes_unique staff_file"
    by (simp_all add: codes_unique_def ann_file_def staff_file_def readData_def ann_def bob_def)
  have 2: "code_representable bob_body"
    by (simp add: code_representable_def bob_body_def no_fields_def to_json_def)
  have 3: "snd (app None stamp True PostEmployees (Some ''Bearer admin123'') (Some bob_body) ann_file) =
       Stored \<lparr>employees = [ann, bob], payrolls = [], nextEmployeeId = 3, nextPayrollId = 1\<rparr>"
    by code_simp
  from employee_code_unique_preserved
         [where f = ann_file and req = PostEmployees and json = "Some bob_body" and env = None
            and now = stamp and ok = True and authHeader = "Some ''Bearer admin123''"] 1(1) 2
  have 4: "codes_unique
        (snd (app None stamp True PostEmployees (Some ''Bearer admin123'') (Some bob_body) ann_file))"
    by simp
  from employee_code_unique_preserved
         [where f = staff_file and req = "DeleteEmployee ''1''" and json = "Some no_fields"
            and env = None and now = stamp and ok = True and authHeader = "Some ''Bearer admin123''"]
       1(2)
  have 5: "codes_unique
        (snd (app None stamp True (DeleteEmployee ''1'') (Some ''Bearer admin123'') (Some no_fields)
                staff_file))"
    by simp
  from 1(1) 3 4 5 show ?thesis by simp
qed

text \<open>
  Claim C5 as stated fails. An authorized creation whose employee code is written
  \<^verbatim>\<open>1e999\<close> is answered with 201 and stored with the code \<^verbatim>\<open>null\<close>; sent again, it
  is not found among the stored codes, is answered with 201 again, and the file then holds
  two employees with the code \<^verbatim>\<open>null\<close>.
\<close>

theorem overflow_code_counterexample:
  "codes_unique
     (snd (app None stamp True PostEmployees (Some ''Bearer admin123'') (Some overflow_code_body)
             Unreadable))
   \<and> status (fst (app None stamp True PostEmployees (Some ''Bearer admin123'')
                     (Some overflow_code_body)
                     (snd (app None stamp True PostEmployees (Some ''Bearer admin123'')
                             (Some overflow_code_body) Unreadable)))) = 201
   \<and> map employee_code (employees (readData
         (snd (app None stamp True PostEmployees (Some ''Bearer admin123'')
                 (Some overflow_code_body)
                 (snd (app None stamp True PostEmployees (Some ''Bearer admin123'')
                         (Some overflow_code_body) Unreadable)))))) = [Null, Null]
   \<and> \<not> codes_unique
         (snd (app None stamp True PostEmployees (Some ''Bearer admin123'')
                 (Some overflow_code_body)
                 (snd (app None stamp True PostEmployees (Some ''Bearer admin123'')
                         (Some overflow_code_body) Unreadable))))"
  by code_simp

section \<open>Net pay\<close>



section \<open>Reading a payslip\<close>

text \<open>
  Claim C7. When the route parameter parses to \<open>P\<close>, a payroll with id \<open>P\<close> is stored
  and no stored employee has the \<open>employee_id\<close> of a payroll with id \<open>P\<close>, the answer
  is 404 with an error message and no payslip.
\<close>

theorem payslip_missing_employee:
  assumes "parseInt (Str payroll_id) = Fin (of_int P)"
    and "\<exists>p\<in>set (payrolls (readData f)). pay_id p = P"
    and "\<forall>p\<in>set (payrolls (readData f)). pay_id p = P \<longrightarrow>
           (\<forall>e\<in>set (employees (readData f)). emp_id e \<noteq> employee_id p)"
  shows "get_payslip payroll_id f =
           (respond 404 (Error ''Employee not found for this payroll entry''), f)"
proof -
  from assms(2) obtain p where
    p: "find (\<lambda>p. Fin (of_int (pay_id p)) = Fin (of_int P)) (payrolls (readData f)) = Some p"
    by (cases "find (\<lambda>p. Fin (of_int (pay_id p)) = Fin (of_int P)) (payrolls (readData f))")
       (auto simp: find_None_iff)
  then have "p \<in> set (payrolls (readData f))" "pay_id p = P"
    by (auto simp: find_Some_iff)
  with assms(3) have "find (\<lambda>emp. emp_id emp = employee_id p) (employees (readData f)) = None"
    by (auto simp: find_None_iff)
  with p assms(1) show ?thesis
    by (simp add: get_payslip_def)
qed

text \<open>The payslip of a payroll whose employee is not in the file.\<close>

theorem payslip_missing_employee_witness:
  "get_payslip ''1'' orphan_file =
     (respond 404 (Error ''Employee not found for this payroll entry''), orphan_file)"
proof -
  have 1: "parseInt (Str ''1'') = Fin (of_int 1)" by code_simp
  have 2: "\<exists>p\<in>set (payrolls (readData orphan_file)). pay_id p = 1"
    by (simp add: orphan_file_def readData_def pay_slip_of_def)
  have 3: "\<forall>p\<in>set (payrolls (readData orphan_file)). pay_id p = 1 \<longrightarrow>
           (\<forall>e\<in>set (employees (readData orphan_file)). emp_id e \<noteq> employee_id p)"
    by (simp add: orphan_file_def readData_def pay_slip_of_def bob_def)
  show ?thesis using payslip_missing_employee [OF 1 2 3] .
qed

section \<open>The bearer token\<close>

text \<open>
  Claim C8, as amended. When \<^verbatim>\<open>express.json()\<close> accepts the body, a request is
  authorized exactly when its \<^verbatim>\<open>Authorization\<close> header is a first piece without a
  space (not compared with \<^verbatim>\<open>Bearer\<close>), a space, the configured key, and then nothing
  or a space and anything: the header's second space-separated piece is string-equal to the
  key. For a header \<^verbatim>\<open>Bearer t\<close> with no space in \<open>t\<close> that is when \<open>t\<close> is the key;
  a key that contains a space is matched by no header, and without a header nothing passes.
  On the three protected routes a request that is not authorized is answered with 401 and
  the data file is untouched, whatever the body, the parameter and the file hold: the handler
  does not run. An authorized one is handled by the handler. When \<^verbatim>\<open>express.json()\<close>
  rejects the body, every route answers 500 and leaves the file untouched, whatever the
  header.
\<close>

theorem bearer_token_check:
  "(authenticateAdmin env authHeader \<longleftrightarrow>
      (\<exists>a rest. authHeader = Some (a @ CHR '' '' # ADMIN_KEY env @ rest)
         \<and> CHR '' '' \<notin> set a \<and> CHR '' '' \<notin> set (ADMIN_KEY env)
         \<and> (rest = [] \<or> (\<exists>r. rest = CHR '' '' # r))))
   \<and> (CHR '' '' \<notin> set t \<longrightarrow>
        (authenticateAdmin env (Some (''Bearer '' @ t)) \<longleftrightarrow> t = ADMIN_KEY env))
   \<and> (CHR '' '' \<in> set (ADMIN_KEY env) \<longrightarrow> \<not> authenticateAdmin env authHeader)
   \<and> \<not> authenticateAdmin env None
   \<and> (\<not> authenticateAdmin env authHeader \<longrightarrow>
        app env now ok PostEmployees authHeader (Some b) f = (unauthorized, f)
        \<and> app env now ok PostPayrolls authHeader (Some b) f = (unauthorized, f)
        \<and> app env now ok (DeleteEmployee p) authHeader (Some b) f = (unauthorized, f))
   \<and> (authenticateAdmin env authHeader \<longrightarrow>
        app env now ok PostEmployees authHeader (Some b) f = post_employees b now ok f
        \<and> app env now ok PostPayrolls authHeader (Some b) f = post_payrolls b now ok f
        \<and> app env now ok (DeleteEmployee p) authHeader (Some b) f = delete_employee p ok f)
   \<and> app env now ok req authHeader None f = (internal_error, f)
   \<and> status unauthorized = 401
   \<and> status internal_error = 500"
proof -
  have bearer: "authenticateAdmin env (Some (''Bearer '' @ t)) \<longleftrightarrow> t = ADMIN_KEY env"
    if "CHR '' '' \<notin> set t"
  proof -
    from that have "split_space (''Bearer '' @ t) = [''Bearer'', t]"
      by (simp add: split_space_no_space)
    then have "bearer_token (Some (''Bearer '' @ t)) = Str t"
      by (simp add: bearer_token_def)
    then show ?thesis by (simp add: authenticateAdmin_iff)
  qed
  have spaced: "\<not> authenticateAdmin env authHeader" if "CHR '' '' \<in> set (ADMIN_KEY env)"
    using that by (simp add: authenticateAdmin_header)
  have absent: "\<not> authenticateAdmin env None"
    by (simp add: authenticateAdmin_iff bearer_token_def)
  have routes:
    "\<not> authenticateAdmin env authHeader \<longrightarrow>
        app env now ok PostEmployees authHeader (Some b) f = (unauthorized, f)
        \<and> app env now ok PostPayrolls authHeader (Some b) f = (unauthorized, f)
        \<and> app env now ok (DeleteEmployee p) authHeader (Some b) f = (unauthorized, f)"
    "authenticateAdmin env authHeader \<longrightarrow>
        app env now ok PostEmployees authHeader (Some b) f = post_employees b now ok f
        \<and> app env now ok PostPayrolls authHeader (Some b) f = post_payrolls b now ok f
        \<and> app env now ok (DeleteEmployee p) authHeader (Some b) f = delete_employee p ok f"
    "app env now ok req authHeader None f = (internal_error, f)"
    by (simp_all add: app_def)
  have codes: "status unauthorized = 401" "status internal_error = 500"
    by (simp_all add: unauthorized_def internal_error_def respond_def)
  from authenticateAdmin_header [of env authHeader] bearer spaced absent routes codes
  show ?thesis by blast
qed

text \<open>
  The default key is accepted, and a key set in the environment replaces it; another token
  and a missing header are answered with 401 on a protected route; an authorized request is
  handled by the handler.
\<close>

theorem bearer_token_check_witness:
  "authenticateAdmin None (Some ''Bearer admin123'')
   \<and> app None stamp True PostEmployees (Some ''Bearer letmein'') (Some ann_body) ann_file =
       (unauthorized, ann_file)
   \<and> app None stamp True (DeleteEmployee ''1'') None (Some no_fields) ann_file =
       (unauthorized, ann_file)
   \<and> app None stamp True PostEmployees (Some ''Bearer admin123'') (Some bob_body) ann_file =
       post_employees bob_body stamp True ann_file
   \<and> authenticateAdmin (Some ''s3cret'') (Some ''Bearer s3cret'')
   \<and> app (Some ''s3cret'') stamp True PostPayrolls (Some ''Bearer admin123'') (Some january_body)
         ann_file = (unauthorized, ann_file)"
proof -
  have key: "ADMIN_KEY None = ''admin123''" by (simp add: ADMIN_KEY_def)
  have key': "ADMIN_KEY (Some ''s3cret'') = ''s3cret''" by (simp add: ADMIN_KEY_def)
  have g: "authenticateAdmin (Some ''s3cret'') (Some ''Bearer s3cret'')"
    using bearer_token_check
      [of "Some ''s3cret''" None "''s3cret''" stamp True ann_body ann_file "''1''" GetHealth] key'
    by simp
  have h: "\<not> authenticateAdmin (Some ''s3cret'') (Some ''Bearer admin123'')"
    using bearer_token_check
      [of "Some ''s3cret''" None "''admin123''" stamp True ann_body ann_file "''1''" GetHealth] key'
    by simp
  have i: "app (Some ''s3cret'') stamp True PostPayrolls (Some ''Bearer admin123'')
         (Some january_body) ann_file = (unauthorized, ann_file)"
    using bearer_token_check
      [of "Some ''s3cret''" "Some ''Bearer admin123''" "''admin123''" stamp True january_body
        ann_file "''1''" GetHealth] h
    by blast
  have a: "authenticateAdmin None (Some ''Bearer admin123'')"
    using bearer_token_check
      [of None None "''admin123''" stamp True ann_body ann_file "''1''" GetHealth] key
    by simp
  have b: "\<not> authenticateAdmin None (Some ''Bearer letmein'')"
    using bearer_token_check
      [of None None "''letmein''" stamp True ann_body ann_file "''1''" GetHealth] key
    by simp
  have c: "app None stamp True PostEmployees (Some ''Bearer letmein'') (Some ann_body) ann_file =
       (unauthorized, ann_file)"
    using bearer_token_check
      [of None "Some ''Bearer letmein''" "''letmein''" stamp True ann_body ann_file "''1''" GetHealth] b
    by blast
  have d: "app None stamp True (DeleteEmployee ''1'') None (Some no_fields) ann_file =
       (unauthorized, ann_file)"
    using bearer_token_check
      [of None None "''admin123''" stamp True no_fields ann_file "''1''" GetHealth]
    by blast
  have e: "app None stamp True PostEmployees (Some ''Bearer admin123'') (Some bob_body) ann_file =
       post_employees bob_body stamp True ann_file"
    using bearer_token_check
      [of None "Some ''Bearer admin123''" "''admin123''" stamp True bob_body ann_file "''1''"
        GetHealth] a
    by blast
  from a c d e g i show ?thesis by simp
qed

text \<open>
  Claim C8 as stated fails. A header that is not \<^verbatim>\<open>Bearer\<close> and the key is authorized:
  \<^verbatim>\<open>Basic admin123 trailing\<close> passes, and deletes employee 1. A key that contains a
  space is refused even in \<^verbatim>\<open>Bearer my key\<close>. And a request without a token whose body
  \<^verbatim>\<open>express.json()\<close> rejects is answered with 500, not with 401.
\<close>

theorem bearer_header_counterexample:
  "authenticateAdmin None (Some ''Basic admin123 trailing'')
   \<and> status (fst (app None stamp True (DeleteEmployee ''1'') (Some ''Basic admin123 trailing'')
                    (Some no_fields) ann_file)) = 200
   \<and> ADMIN_KEY (Some ''my key'') = ''my key''
   \<and> \<not> authenticateAdmin (Some ''my key'') (Some ''Bearer my key'')
   \<and> status (fst (app None stamp True PostEmployees None None ann_file)) = 500
   \<and> status (fst (app None stamp True PostEmployees None None ann_file)) \<noteq> 401"
  by code_simp

section \<open>Reading the data file\<close>

text \<open>
  Claim C9. When reading the file or parsing its text fails, \<open>readData\<close> returns the
  empty document: no employees, no payrolls, both counters 1.
\<close>

theorem readData_failure_default:
  "f = Unreadable \<or> f = Malformed \<Longrightarrow>
     readData f = \<lparr>employees = [], payrolls = [], nextEmployeeId = 1, nextPayrollId = 1\<rparr>"
  by (auto simp: readData_def)

text \<open>A file whose text is not JSON.\<close>

theorem readData_failure_default_witness:
  "readData Malformed = \<lparr>employees = [], payrolls = [], nextEmployeeId = 1, nextPayrollId = 1\<rparr>"
  using readData_failure_default [of Malformed] by simp

section \<open>Falsy fields\<close>

text \<open>
  Claim C10. The presence checks test truthiness: the number 0, the empty string,
  \<^verbatim>\<open>null\<close> and \<^verbatim>\<open>false\<close> are falsy, and a required field holding a falsy value
  makes either creation handler answer 400 with its missing-field message, the file
  unchanged. So a salary of 0 is rejected by the presence check of the employee handler,
  and an \<open>employee_id\<close> of 0 gets the 400 of the payroll handler, not a 404.
\<close>

theorem falsy_field_is_missing:
  "(v = Num (Fin 0) \<or> v = Str [] \<or> v = Null \<or> v = Bool False \<longrightarrow> \<not> truthy v)
   \<and> (k \<in> set required_employee_fields \<and> \<not> truthy (b k) \<longrightarrow>
        post_employees b now ok f = (respond 400 (Error ''All fields are required''), f))
   \<and> (k \<in> set required_payroll_fields \<and> \<not> truthy (b k) \<longrightarrow>
        post_payrolls b now ok f =
          (respond 400
             (Error ''employee_id, pay_period_start, pay_period_end, and gross_pay are required''), f))
   \<and> (b ''salary'' = Num (Fin 0) \<longrightarrow>
        post_employees b now ok f = (respond 400 (Error ''All fields are required''), f))
   \<and> (b ''employee_id'' = Num (Fin 0) \<longrightarrow>
        post_payrolls b now ok f =
          (respond 400
             (Error ''employee_id, pay_period_start, pay_period_end, and gross_pay are required''), f))"
proof -
  have falsy: "\<not> truthy (Num (Fin 0))" "\<not> truthy (Str [])" "\<not> truthy Null" "\<not> truthy (Bool False)"
    by (simp_all add: truthy_def)
  have emp: "post_employees b now ok f = (respond 400 (Error ''All fields are required''), f)"
    if "k \<in> set required_employee_fields" "\<not> truthy (b k)" for k
    using that by (auto simp: post_employees_def required_employee_fields_def)
  have pay: "post_payrolls b now ok f =
      (respond 400
         (Error ''employee_id, pay_period_start, pay_period_end, and gross_pay are required''), f)"
    if "k \<in> set required_payroll_fields" "\<not> truthy (b k)" for k
    using that by (auto simp: post_payrolls_def required_payroll_fields_def Let_def)
  have "''salary'' \<in> set required_employee_fields" "''employee_id'' \<in> set required_payroll_fields"
    by (simp_all add: required_employee_fields_def required_payroll_fields_def)
  with falsy emp pay show ?thesis by (metis (full_types))
qed

text \<open>A salary of 0 and an employee id of 0, all other fields as in the scenario.\<close>

theorem falsy_field_is_missing_witness:
  "post_employees (ann_body(''salary'' := Num (Fin 0))) stamp True ann_file =
     (respond 400 (Error ''All fields are required''), ann_file)
   \<and> post_payrolls (january_body(''employee_id'' := Num (Fin 0))) stamp True ann_file =
       (respond 400
          (Error ''employee_id, pay_period_start, pay_period_end, and gross_pay are required''),
        ann_file)"
  using falsy_field_is_missing [of "Num (Fin 0)" "''salary''" "ann_body(''salary'' := Num (Fin 0))"
      stamp True ann_file]
    falsy_field_is_missing [of "Num (Fin 0)" "''employee_id''"
      "january_body(''employee_id'' := Num (Fin 0))" stamp True ann_file]
  by simp

end
